theory Spec2Isabelle
  imports Main "HOL-Library.Option_ord"
begin

section \<open>The entity store (models/__init__.py)\<close>

text \<open>
  The entities are the rows of a Pony ORM database. A class of entities is a
  \<^theory_text>\<open>record\<close>, the subclasses \<open>SSH\<close> and \<open>Port\<close> extend the record of
  \<open>CheckingSupported\<close>, so that the methods of the base class are functions on any
  extension of it. A table of one entity kind is the list of its rows in primary-key
  order; a reference to another entity is that entity's primary key. A \<open>datetime\<close> is
  a point on a linear time axis, of which the code only uses equality and order.
  In a query \<open>NULL\<close> compares to nothing. \<open>SSH.port\<close> and \<open>Port.ssh\<close> are the two sides
  of one relation, which the ORM keeps in step; a method of the model writes the
  attribute that its source names.
\<close>

type_synonym datetime = int

record CheckingSupported =
  id_pk :: nat
  is_checking :: bool
  last_checked :: "datetime option"

record SSH = CheckingSupported +
  ip :: string
  username :: string
  password :: string
  is_live :: bool
  port :: "nat option"

record Port = CheckingSupported +
  port_number :: int
  ssh :: "nat option"
  external_ip :: string
  used_ssh_list :: "nat set"
  time_connected :: "datetime option"

text \<open>
  The exceptions of the store: \<open>ObjectNotFound\<close> of \<open>cls[i]\<close>, \<open>AttributeError\<close> with the
  name of the attribute that is missing, \<open>TypeError\<close>, and an exception of any other
  class, with the name of the class.
\<close>

datatype py_error = ObjectNotFound | AttributeError string | TypeError | OtherError string

subsection \<open>Query primitives\<close>

text \<open>\<open>cls[i]\<close>: the row with primary key \<open>i\<close>, or \<open>ObjectNotFound\<close>.\<close>

definition get_by_id ::
  "('a CheckingSupported_scheme) list \<Rightarrow> nat \<Rightarrow> py_error + 'a CheckingSupported_scheme" where
  "get_by_id tbl i = (case find (\<lambda>x. id_pk x = i) tbl of
                        None \<Rightarrow> Inl ObjectNotFound
                      | Some obj \<Rightarrow> Inr obj)"

text \<open>Writing an object back: the row with its primary key is replaced.\<close>

definition store_obj ::
  "('a CheckingSupported_scheme) list \<Rightarrow> 'a CheckingSupported_scheme
     \<Rightarrow> ('a CheckingSupported_scheme) list" where
  "store_obj tbl obj = map (\<lambda>x. if id_pk x = id_pk obj then obj else x) tbl"

text \<open>
  Modelled from the spec: the database that \<open>models/database.py\<close> binds is not among
  the sources, and where an ascending \<open>order_by\<close> puts \<open>NULL\<close> is the database's choice.
  The specification has the staleness selection prefer the entities never checked, so
  \<open>NULL\<close> sorts first, as in the order of \<open>option\<close> (\<open>None < Some t\<close>); rows with equal keys
  keep their order.
\<close>

definition order_by :: "('a \<Rightarrow> 'k::linorder) \<Rightarrow> 'a list \<Rightarrow> 'a list" where
  "order_by k query = sort_key k query"

text \<open>\<open>query.first()\<close>\<close>

definition first :: "'a list \<Rightarrow> 'a option" where
  "first xs = (case xs of [] \<Rightarrow> None | x # _ \<Rightarrow> Some x)"

text \<open>
  \<open>with db_session(...)\<close>: Pony takes the option \<open>retry\<close> only where \<open>db_session\<close> is used
  as a decorator. Entering the block of a \<open>db_session\<close> whose \<open>retry\<close> is not 0 raises
  \<open>TypeError\<close>; the plain \<open>with db_session\<close> has \<open>retry\<close> 0.
\<close>

definition db_session_enter :: "nat \<Rightarrow> py_error + unit" where
  "db_session_enter retry = (if retry \<noteq> 0 then Inl TypeError else Inr ())"

subsection \<open>CheckingSupported\<close>

text \<open>
  \<open>type(self).min\<close>: the attributes of an entity class are those of Pony's metaclass
  (\<open>select\<close>, \<open>get\<close>, \<open>exists\<close> and the like) and those its body defines. \<open>min\<close> is none
  of them (Pony has \<open>min\<close> on queries only), so reading it raises \<open>AttributeError\<close>
  before anything is called.
\<close>

definition type_self_min :: "py_error + datetime option" where
  "type_self_min = Inl (AttributeError ''min'')"

text \<open>
  The property \<open>need_checking\<close>, as Python evaluates it on an object: \<open>and\<close> and \<open>or\<close>
  stop at the first operand that decides, so \<open>type(self).min\<close> is read only for an
  object that is not being checked and has a \<open>last_checked\<close>.
\<close>

definition need_checking :: "'a CheckingSupported_scheme \<Rightarrow> py_error + bool" where
  "need_checking self =
     (if is_checking self then Inr False
      else if last_checked self = None then Inr True
      else (case type_self_min of
              Inl e \<Rightarrow> Inl e
            | Inr m \<Rightarrow> Inr (last_checked self = m)))"

text \<open>
  \<open>cls.select(lambda o: o.need_checking)\<close>: Pony builds the query by translating the
  lambda, and with it the body of the property, to SQL. The body calls
  \<open>type(self).min(...)\<close>, for which there is no translation, so \<open>select\<close> raises while
  the query is built, whatever rows the table has. \<open>refused\<close> is the exception that
  Pony raises then.
\<close>

definition select_need_checking ::
  "py_error \<Rightarrow> ('a CheckingSupported_scheme) list
     \<Rightarrow> py_error + ('a CheckingSupported_scheme) list" where
  "select_need_checking refused tbl = Inl refused"

definition begin_checking ::
  "('a CheckingSupported_scheme) list \<Rightarrow> 'a CheckingSupported_scheme
     \<Rightarrow> py_error + ('a CheckingSupported_scheme) list" where
  "begin_checking tbl obj =
     (case db_session_enter 0 of
        Inl e \<Rightarrow> Inl e
      | Inr _ \<Rightarrow>
          (case get_by_id tbl (id_pk obj) of
             Inl e \<Rightarrow> Inl e
           | Inr obj_by_id \<Rightarrow> Inr (store_obj tbl (obj_by_id\<lparr>is_checking := True\<rparr>))))"

text \<open>
  \<open>get_need_checking\<close> returns a reference to the selected row: the result of the
  model is that row as selected, and the table after the call, where the caller reads
  the row's current fields under its primary key.
\<close>

definition get_need_checking ::
  "py_error \<Rightarrow> bool \<Rightarrow> ('a CheckingSupported_scheme) list
     \<Rightarrow> py_error + ('a CheckingSupported_scheme option \<times> ('a CheckingSupported_scheme) list)" where
  "get_need_checking refused begin tbl =
     (case select_need_checking refused tbl of
        Inl e \<Rightarrow> Inl e
      | Inr query \<Rightarrow>
          (case first (order_by last_checked query) of
             None \<Rightarrow> Inr (None, tbl)
           | Some obj \<Rightarrow>
               if begin then
                 (case begin_checking tbl obj of
                    Inl e \<Rightarrow> Inl e
                  | Inr tbl' \<Rightarrow> Inr (Some obj, tbl'))
               else Inr (Some obj, tbl)))"

text \<open>
  \<open>end_checking(obj, **kwargs)\<close>: the keyword arguments are a list of attribute
  assignments of the entity kind, applied in order by \<open>setattr\<close>; \<open>now\<close> is the value
  of \<open>datetime.now()\<close>. The method returns nothing, so the result is the table, or the
  exception that leaves the method. Its block is that of \<open>db_session(retry=3)\<close>.
\<close>

definition end_checking ::
  "('k \<Rightarrow> 'a CheckingSupported_scheme \<Rightarrow> 'a CheckingSupported_scheme)
     \<Rightarrow> ('a CheckingSupported_scheme) list \<Rightarrow> 'a CheckingSupported_scheme
     \<Rightarrow> 'k list \<Rightarrow> datetime \<Rightarrow> py_error + ('a CheckingSupported_scheme) list" where
  "end_checking setattr tbl obj kwargs now =
     (case db_session_enter 3 of
        Inl e \<Rightarrow> Inl e
      | Inr _ \<Rightarrow>
          (case get_by_id tbl (id_pk obj) of
             Inl e \<Rightarrow> if e = ObjectNotFound then Inr tbl else Inl e
           | Inr obj_by_id \<Rightarrow>
               Inr (store_obj tbl
                 ((fold setattr kwargs obj_by_id)
                    \<lparr>is_checking := False, last_checked := Some now\<rparr>))))"

definition reset_status :: "'a CheckingSupported_scheme \<Rightarrow> 'a CheckingSupported_scheme" where
  "reset_status self = self\<lparr>is_checking := False, last_checked := None\<rparr>"

subsection \<open>SSH\<close>

datatype SSH_attr =
    SSH_is_checking bool
  | SSH_last_checked "datetime option"
  | SSH_ip string
  | SSH_username string
  | SSH_password string
  | SSH_is_live bool
  | SSH_port "nat option"

fun SSH_setattr :: "SSH_attr \<Rightarrow> SSH \<Rightarrow> SSH" where
  "SSH_setattr (SSH_is_checking v) s = s\<lparr>is_checking := v\<rparr>"
| "SSH_setattr (SSH_last_checked v) s = s\<lparr>last_checked := v\<rparr>"
| "SSH_setattr (SSH_ip v) s = s\<lparr>ip := v\<rparr>"
| "SSH_setattr (SSH_username v) s = s\<lparr>username := v\<rparr>"
| "SSH_setattr (SSH_password v) s = s\<lparr>password := v\<rparr>"
| "SSH_setattr (SSH_is_live v) s = s\<lparr>is_live := v\<rparr>"
| "SSH_setattr (SSH_port v) s = s\<lparr>port := v\<rparr>"

definition is_usable :: "SSH \<Rightarrow> bool" where
  "is_usable self = (is_live self \<and> port self = None)"

definition get_ssh_for_port :: "SSH list \<Rightarrow> Port \<Rightarrow> bool \<Rightarrow> SSH option" where
  "get_ssh_for_port tbl p unique =
     (let query = filter is_usable tbl;
          query = (if unique then filter (\<lambda>s. id_pk s \<notin> used_ssh_list p) query else query)
      in first query)"

subsection \<open>Port\<close>

datatype Port_attr =
    Port_is_checking bool
  | Port_last_checked "datetime option"
  | Port_port_number int
  | Port_ssh "nat option"
  | Port_external_ip string
  | Port_used_ssh_list "nat set"
  | Port_time_connected "datetime option"

fun Port_setattr :: "Port_attr \<Rightarrow> Port \<Rightarrow> Port" where
  "Port_setattr (Port_is_checking v) p = p\<lparr>is_checking := v\<rparr>"
| "Port_setattr (Port_last_checked v) p = p\<lparr>last_checked := v\<rparr>"
| "Port_setattr (Port_port_number v) p = p\<lparr>port_number := v\<rparr>"
| "Port_setattr (Port_ssh v) p = p\<lparr>ssh := v\<rparr>"
| "Port_setattr (Port_external_ip v) p = p\<lparr>external_ip := v\<rparr>"
| "Port_setattr (Port_used_ssh_list v) p = p\<lparr>used_ssh_list := v\<rparr>"
| "Port_setattr (Port_time_connected v) p = p\<lparr>time_connected := v\<rparr>"

text \<open>
  In the query of \<open>get_need_reset\<close> a \<open>NULL\<close> \<open>time_connected\<close> compares to nothing,
  so such a row is not selected.
\<close>

definition get_need_reset :: "Port list \<Rightarrow> datetime \<Rightarrow> Port list" where
  "get_need_reset tbl time_expired =
     filter (\<lambda>p. ssh p \<noteq> None \<and>
                 (case time_connected p of None \<Rightarrow> False | Some t \<Rightarrow> t < time_expired)) tbl"

definition need_ssh :: "Port \<Rightarrow> bool" where
  "need_ssh self = (ssh self = None)"

definition Port_reset_status :: "Port \<Rightarrow> Port" where
  "Port_reset_status self =
     (reset_status self)\<lparr>external_ip := [], ssh := None, time_connected := None,
                          used_ssh_list := {}\<rparr>"

section \<open>The tunnel manager (controllers/ssh_controllers.py)\<close>

subsection \<open>Strings and numbers\<close>

text \<open>\<open>str(n)\<close> of an integer, as the f-strings format a port number.\<close>

definition digit_char :: "nat \<Rightarrow> char" where
  "digit_char d = char_of (48 + d)"

function str_nat :: "nat \<Rightarrow> string" where
  "str_nat n = (if n < 10 then [digit_char n] else str_nat (n div 10) @ [digit_char (n mod 10)])"
  by pat_completeness auto
termination
  by (relation "measure (\<lambda>n. n)") auto

definition str_int :: "int \<Rightarrow> string" where
  "str_int i = (if i < 0 then CHR ''-'' # str_nat (nat (- i)) else str_nat (nat i))"

text \<open>
  \<open>[int(p) for p in re.findall(r'\d+', s)]\<close>: the maximal runs of decimal digits of
  \<open>s\<close>, from left to right, each read as a number. \<open>cur\<close> is the run being read. The
  digits are the ASCII digits.
\<close>

definition is_digit :: "char \<Rightarrow> bool" where
  "is_digit c = (c \<in> set ''0123456789'')"

fun findall_digits :: "string \<Rightarrow> string \<Rightarrow> string list" where
  "findall_digits cur [] = (if cur = [] then [] else [cur])"
| "findall_digits cur (c # cs) =
     (if is_digit c then findall_digits (cur @ [c]) cs
      else if cur = [] then findall_digits [] cs
      else cur # findall_digits [] cs)"

definition int_of_digits :: "string \<Rightarrow> int" where
  "int_of_digits p = fold (\<lambda>c n. 10 * n + (of_char c - 48)) p 0"

definition parse_ports :: "string \<Rightarrow> int list" where
  "parse_ports s = map int_of_digits (findall_digits [] s)"

text \<open>Python's \<open>a or b\<close> on lists: \<open>a\<close> unless it is empty.\<close>

definition py_or :: "'a list \<Rightarrow> 'a list \<Rightarrow> 'a list" where
  "py_or a b = (if a \<noteq> [] then a else b)"

subsection \<open>Exceptions\<close>

text \<open>
  An exception raised by the network is its class name (\<open>type(exc).__name__\<close>), its
  message (\<open>str(exc)\<close>) and the base class that decides which \<open>except\<close> clause takes it.
  \<open>SSHError\<close> is the only exception class the module defines; an exception no clause
  takes leaves the function as it is (\<open>Uncaught\<close>).
\<close>

datatype exc_base = OSError | AsyncsshError | TimeoutError | OtherException

datatype exc = Exc (base: exc_base) (type_name: string) (message: string)

datatype error = is_SSHError: SSHError string | Uncaught exc

subsection \<open>Registry, cache and the network\<close>

text \<open>
  An \<open>asyncssh\<close> connection: \<open>conn_id\<close> tells one connection object from another,
  \<open>port_remote\<close> is the remote port it is connected to (its attribute \<open>_port\<close>).
\<close>

record connection =
  conn_id :: nat
  port_remote :: int

record ProxyInfo =
  port :: int
  connection :: connection
  host :: string
  proxy_type :: string

definition address :: "ProxyInfo \<Rightarrow> string" where
  "address self = proxy_type self @ ''://'' @ host self @ '':'' @ str_int (ProxyInfo.port self)"

text \<open>
  The module's globals \<open>proxies\<close> and \<open>ssh_port\<close>, and the connections closed so far,
  in the order of their closing.
\<close>

record state =
  proxies :: "ProxyInfo list"
  ssh_port :: "string \<rightharpoonup> int list"
  closed :: "connection list"

text \<open>
  Modelled from the spec: \<open>utils.kill_ssh_connection\<close> is not among the sources; the
  specification has the teardown close the underlying connection of the tunnel. The
  model records the connection in \<open>closed\<close> and raises nothing.
\<close>

definition kill_ssh_connection :: "connection \<Rightarrow> state \<Rightarrow> state" where
  "kill_ssh_connection c st = st\<lparr>closed := closed st @ [c]\<rparr>"

text \<open>
  What the calls that leave the process answer, as parameters of the model:
  \<^item> \<open>get_free_port\<close>: the port \<open>utils.get_free_port()\<close> returns;
  \<^item> \<open>ssh_ports\<close>: the string \<open>config.get('ssh_ports')\<close> returns;
  \<^item> \<open>get_first_success\<close>: the outcome of \<open>utils.get_first_success\<close> over
    \<open>asyncssh.connect\<close> to the candidate ports, a connection or the exception raised;
  \<^item> \<open>forward_socks\<close>: the exception \<open>connection.forward_socks('', port)\<close> raises, if any;
  \<^item> \<open>get_proxy_ip\<close>: the outcome of \<open>utils.get_proxy_ip(address)\<close>, the external
    address seen through the proxy (empty when there is none) or the exception raised.
\<close>

record net =
  get_free_port :: int
  ssh_ports :: string
  get_first_success :: "string \<Rightarrow> string \<Rightarrow> string \<Rightarrow> int list \<Rightarrow> exc + connection"
  forward_socks :: "connection \<Rightarrow> int \<Rightarrow> exc option"
  get_proxy_ip :: "string \<Rightarrow> exc + string"

subsection \<open>Operations\<close>

definition kill_proxy_on_port :: "int \<Rightarrow> state \<Rightarrow> (error + unit) \<times> state" where
  "kill_proxy_on_port p st =
     (case find (\<lambda>proxy. ProxyInfo.port proxy = p) (proxies st) of
        Some proxy \<Rightarrow>
          (Inr (), kill_ssh_connection (connection proxy)
                     (st\<lparr>proxies := remove1 proxy (proxies st)\<rparr>))
      | None \<Rightarrow> (Inl (SSHError (''No proxy on port '' @ str_int p @ '' found.'')), st))"

text \<open>The key of the cache \<open>ssh_port\<close>: \<open>f"{host}|{username}|{password}"\<close>.\<close>

definition cache_key :: "string \<Rightarrow> string \<Rightarrow> string \<Rightarrow> string" where
  "cache_key h u pw = h @ ''|'' @ u @ ''|'' @ pw"

text \<open>The candidate remote ports of \<open>connect_ssh\<close> (the list \<open>ports\<close>).\<close>

definition candidate_ports :: "net \<Rightarrow> state \<Rightarrow> string \<Rightarrow> string \<Rightarrow> string \<Rightarrow> int list" where
  "candidate_ports nw st h u pw =
     (let config_ports = parse_ports (ssh_ports nw)
      in py_or (case ssh_port st (cache_key h u pw) of None \<Rightarrow> [] | Some l \<Rightarrow> l)
           (py_or config_ports [22]))"

text \<open>
  \<open>except (OSError, asyncssh.Error, asyncio.TimeoutError) as exc:
  raise SSHError(f"{type(exc).__name__}: {exc}.")\<close>
\<close>

definition wrap_exc :: "exc \<Rightarrow> error" where
  "wrap_exc e =
     (if base e \<in> {OSError, AsyncsshError, TimeoutError}
      then SSHError (type_name e @ '': '' @ message e @ ''.'')
      else Uncaught e)"

text \<open>
  \<open>if not port: port = utils.get_free_port()\<close>; the argument is \<open>None\<close> when the caller
  leaves it out, and \<open>0\<close> is as good as none.
\<close>

definition local_port :: "net \<Rightarrow> int option \<Rightarrow> int" where
  "local_port nw port_arg =
     (case port_arg of
        None \<Rightarrow> get_free_port nw
      | Some q \<Rightarrow> if q = 0 then get_free_port nw else q)"

text \<open>
  \<open>connect_ssh(host, username, password, port)\<close>. The \<open>SSHError\<close> of
  \<open>kill_proxy_on_port\<close> is passed over; the log lines are not part of the model.
\<close>

definition connect_ssh ::
  "net \<Rightarrow> state \<Rightarrow> string \<Rightarrow> string \<Rightarrow> string \<Rightarrow> int option
     \<Rightarrow> (error + ProxyInfo) \<times> state" where
  "connect_ssh nw st h u pw port_arg =
     (let p = local_port nw port_arg;
          st = snd (kill_proxy_on_port p st);
          ports = candidate_ports nw st h u pw
      in case get_first_success nw h u pw ports of
           Inl e \<Rightarrow> (Inl (wrap_exc e), st)
         | Inr conn \<Rightarrow>
             (let st = st\<lparr>ssh_port := (ssh_port st)(cache_key h u pw \<mapsto> [port_remote conn])\<rparr>
              in case forward_socks nw conn p of
                   Some e \<Rightarrow> (Inl (wrap_exc e), st)
                 | None \<Rightarrow>
                     (let proxy_info = \<lparr>port = p, connection = conn,
                                         host = ''localhost'', proxy_type = ''socks5''\<rparr>
                      in case get_proxy_ip nw (address proxy_info) of
                           Inl e \<Rightarrow> (Inl (wrap_exc e), st)
                         | Inr a \<Rightarrow>
                             if a = []
                             then (Inl (SSHError ''Cannot connect to forwarded proxy.''),
                                   kill_ssh_connection conn st)
                             else (Inr proxy_info,
                                   st\<lparr>proxies := proxies st @ [proxy_info]\<rparr>))))"

text \<open>\<open>verify_ssh\<close> returns a boolean, or leaves with an exception that is no \<open>SSHError\<close>.\<close>

definition verify_ssh ::
  "net \<Rightarrow> state \<Rightarrow> string \<Rightarrow> string \<Rightarrow> string \<Rightarrow> (exc + bool) \<times> state" where
  "verify_ssh nw st h u pw =
     (case connect_ssh nw st h u pw None of
        (Inr proxy_info, st') \<Rightarrow> (Inr True, kill_ssh_connection (connection proxy_info) st')
      | (Inl (SSHError m), st') \<Rightarrow> (Inr False, st')
      | (Inl (Uncaught e), st') \<Rightarrow> (Inl e, st'))"

section \<open>Example data\<close>

definition ssh_row :: "nat \<Rightarrow> bool \<Rightarrow> datetime option \<Rightarrow> SSH" where
  "ssh_row i c t = \<lparr>id_pk = i, is_checking = c, last_checked = t, ip = ''10.0.0.5'',
                    username = ''a'', password = ''b'', is_live = True, port = None\<rparr>"

text \<open>Three credentials checked at times 10, 20 and 30, none being checked.\<close>

definition ex_stale :: "SSH list" where
  "ex_stale = [ssh_row 1 False (Some 10), ssh_row 2 False (Some 20), ssh_row 3 False (Some 30)]"

text \<open>The same credentials while the stalest one is being checked.\<close>

definition ex_inflight :: "SSH list" where
  "ex_inflight = [ssh_row 1 True (Some 10), ssh_row 2 False (Some 20), ssh_row 3 False (Some 30)]"

text \<open>
  Four credentials: a dead one, one assigned to port 7, and two usable ones.
\<close>

definition ex_creds :: "SSH list" where
  "ex_creds = [(ssh_row 1 False None)\<lparr>is_live := False\<rparr>,
               (ssh_row 2 False None)\<lparr>SSH.port := Some 7\<rparr>,
               ssh_row 3 False None,
               ssh_row 4 False None]"

definition port_row :: "nat \<Rightarrow> int \<Rightarrow> nat option \<Rightarrow> nat set \<Rightarrow> datetime option \<Rightarrow> Port" where
  "port_row i n s used t = \<lparr>id_pk = i, is_checking = False, last_checked = Some 50,
                            port_number = n, ssh = s, external_ip = ''203.0.113.9'',
                            used_ssh_list = used, time_connected = t\<rparr>"

text \<open>
  At time 10000 (in seconds): a port assigned two hours ago, a port assigned half an
  hour ago and a port without a credential.
\<close>

definition ex_ports :: "Port list" where
  "ex_ports = [port_row 7 5000 (Some 2) {2, 3} (Some (10000 - 7200)),
               port_row 8 5001 (Some 4) {4} (Some (10000 - 1800)),
               port_row 9 5002 None {} None]"

text \<open>
  The tunnel manager right after start, and a network on which the host answers on
  remote port 2222 and the proxy check sees an address; the same network when the proxy
  check sees nothing, and when no connection is accepted.
\<close>

definition st0 :: state where
  "st0 = \<lparr>proxies = [], ssh_port = Map.empty, closed = []\<rparr>"

definition ex_net :: net where
  "ex_net = \<lparr>get_free_port = 40000,
             ssh_ports = ''2222, 22'',
             get_first_success = (\<lambda>h u pw ports.
               if 2222 \<in> set ports then Inr \<lparr>conn_id = 7, port_remote = 2222\<rparr>
               else Inl (Exc OSError ''ConnectionRefusedError'' ''Connect call failed'')),
             forward_socks = (\<lambda>c p. None),
             get_proxy_ip = (\<lambda>a. Inr ''198.51.100.7'')\<rparr>"

definition ex_net_unverified :: net where
  "ex_net_unverified = ex_net\<lparr>get_proxy_ip := (\<lambda>a. Inr [])\<rparr>"

definition ex_net_refused :: net where
  "ex_net_refused = ex_net\<lparr>get_first_success := (\<lambda>h u pw ports.
      Inl (Exc OSError ''ConnectionRefusedError'' ''Connect call failed''))\<rparr>"

text \<open>A registry with tunnels on the local ports 5001 and 5000.\<close>

definition ex_entry :: "int \<Rightarrow> nat \<Rightarrow> ProxyInfo" where
  "ex_entry p c = \<lparr>port = p, connection = \<lparr>conn_id = c, port_remote = 22\<rparr>,
                   host = ''localhost'', proxy_type = ''socks5''\<rparr>"

definition ex_st :: state where
  "ex_st = \<lparr>proxies = [ex_entry 5001 1, ex_entry 5000 2], ssh_port = Map.empty, closed = []\<rparr>"

section \<open>Properties of the store\<close>

subsection \<open>Selecting the next row to check\<close>

text \<open>The selection raises on every table, and the property on every object it has to
  compare with the minimum.\<close>

lemma get_need_checking_always_raises: "get_need_checking refused begin tbl = Inl refused"
  by (simp add: get_need_checking_def select_need_checking_def)

lemma need_checking_raises_iff:
  "need_checking self = Inl (AttributeError ''min'')
     \<longleftrightarrow> \<not> is_checking self \<and> last_checked self \<noteq> None"
  by (simp add: need_checking_def type_self_min_def)

text \<open>
  Claim C2. The property is to hold exactly of the entities that are not being checked
  and whose \<open>last_checked\<close> is null or the minimum over all entities of the kind. The
  code decides the entities that are being checked (false) and those never checked
  (true); for an entity that is not being checked and has a \<open>last_checked\<close> it reads
  \<open>type(self).min\<close>, which no entity class has, and raises \<open>AttributeError\<close> where the
  claim has a truth value.
\<close>

theorem need_checking_attribute_error:
  "need_checking (ssh_row 1 False (Some 10)) = Inl (AttributeError ''min'') \<and>
   need_checking (ssh_row 2 False (Some 20)) = Inl (AttributeError ''min'') \<and>
   need_checking (ssh_row 1 True (Some 10)) = Inr False \<and>
   need_checking (ssh_row 4 False None) = Inr True"
  by (simp add: need_checking_def type_self_min_def ssh_row_def)

text \<open>
  Claim C1. The selection is to return the entity with the least \<open>last_checked\<close> among
  those not being checked and to mark it. The code selects by the property
  \<open>need_checking\<close>, whose body Pony cannot translate, so \<open>get_need_checking\<close> raises on
  every table, with \<open>begin\<close> or without: on the three credentials checked at 10, 20 and
  30, none in flight, no credential is returned and none is marked.
\<close>

theorem get_need_checking_raises:
  "get_need_checking refused True ex_stale = Inl refused \<and>
   get_need_checking refused False ex_stale = Inl refused \<and>
   get_need_checking refused True ([] :: SSH list) = Inl refused"
  by (simp add: get_need_checking_def select_need_checking_def)

subsection \<open>Credentials for a port\<close>

lemma first_filter_find: "first (filter P xs) = find P xs"
  by (induction xs) (simp_all add: first_def)

lemma find_Some_holds: "find P xs = Some x \<Longrightarrow> x \<in> set xs \<and> P x"
  by (induction xs) (auto split: if_splits)

lemma filter_is_usable:
  "filter is_usable tbl = filter (\<lambda>s. is_live s \<and> SSH.port s = None) tbl"
  by (rule filter_cong) (simp_all add: is_usable_def)

lemma get_ssh_for_port_unique:
  "get_ssh_for_port tbl p True =
     first (filter (\<lambda>s. is_live s \<and> SSH.port s = None \<and> id_pk s \<notin> used_ssh_list p) tbl)"
  unfolding get_ssh_for_port_def Let_def filter_is_usable
  by simp

lemma get_ssh_for_port_any:
  "get_ssh_for_port tbl p False = first (filter (\<lambda>s. is_live s \<and> SSH.port s = None) tbl)"
  unfolding get_ssh_for_port_def Let_def filter_is_usable
  by simp

text \<open>
  Claim C3. \<open>get_ssh_for_port(p, unique)\<close> returns the first credential of the table
  that is live, is assigned to no port and, when \<open>unique\<close> is set, is not in the
  history \<open>used_ssh_list\<close> of \<open>p\<close>. So it never returns a credential that is not live or
  that is assigned, with \<open>unique\<close> never one of \<open>p\<close>'s history, and nothing but \<open>p\<close>'s own
  history excludes a credential: the histories of other ports do not enter the
  selection.
\<close>

theorem get_ssh_for_port_usable:
  "get_ssh_for_port tbl p unique =
     find (\<lambda>s. is_live s \<and> SSH.port s = None \<and> (unique \<longrightarrow> id_pk s \<notin> used_ssh_list p)) tbl \<and>
   (\<forall>s. get_ssh_for_port tbl p unique = Some s \<longrightarrow>
      s \<in> set tbl \<and> is_live s \<and> SSH.port s = None \<and> (unique \<longrightarrow> id_pk s \<notin> used_ssh_list p))"
proof -
  let ?P = "\<lambda>s. is_live s \<and> SSH.port s = None \<and> (unique \<longrightarrow> id_pk s \<notin> used_ssh_list p)"
  have "get_ssh_for_port tbl p unique = first (filter ?P tbl)"
    by (cases unique) (simp_all add: get_ssh_for_port_unique get_ssh_for_port_any)
  then have eq: "get_ssh_for_port tbl p unique = find ?P tbl"
    by (simp only: first_filter_find)
  show ?thesis unfolding eq using find_Some_holds [of ?P tbl] by blast
qed

text \<open>
  Port 7 has the credentials 2 and 3 in its history; port 8 has an empty history.
  Credential 3 is passed over for port 7 when \<open>unique\<close> is set, and is selected for
  port 8 although it is in the history of port 7.
\<close>

theorem get_ssh_for_port_usable_witness:
  "3 \<in> used_ssh_list (port_row 7 5000 (Some 2) {2, 3} (Some 100)) \<and>
   get_ssh_for_port ex_creds (port_row 7 5000 (Some 2) {2, 3} (Some 100)) True
     = Some (ssh_row 4 False None) \<and>
   get_ssh_for_port ex_creds (port_row 7 5000 (Some 2) {2, 3} (Some 100)) False
     = Some (ssh_row 3 False None) \<and>
   get_ssh_for_port ex_creds (port_row 8 5001 None {} None) True
     = Some (ssh_row 3 False None)"
  using get_ssh_for_port_usable [of ex_creds "port_row 7 5000 (Some 2) {2, 3} (Some 100)" True]
    get_ssh_for_port_usable [of ex_creds "port_row 7 5000 (Some 2) {2, 3} (Some 100)" False]
    get_ssh_for_port_usable [of ex_creds "port_row 8 5001 None {} None" True]
  by (simp add: ex_creds_def ssh_row_def port_row_def)

subsection \<open>Rotation and reset of ports\<close>

lemma map_id_pk_store_obj: "map id_pk (store_obj tbl obj) = map id_pk tbl"
  by (induction tbl) (auto simp: store_obj_def)

text \<open>
  Claim C8. \<open>get_need_reset(time_expired)\<close> returns exactly the ports that have a
  credential assigned and whose \<open>time_connected\<close> is before \<open>time_expired\<close>. A port
  without a credential, a port connected at or after \<open>time_expired\<close> and a port
  without a connection time are not returned.
\<close>

theorem get_need_reset_exact:
  "set (get_need_reset tbl time_expired) =
     {p \<in> set tbl. ssh p \<noteq> None \<and> (\<exists>t. time_connected p = Some t \<and> t < time_expired)} \<and>
   (\<forall>p \<in> set tbl. ssh p = None \<longrightarrow> p \<notin> set (get_need_reset tbl time_expired)) \<and>
   (\<forall>p \<in> set tbl. \<forall>t. time_connected p = Some t \<and> time_expired \<le> t
       \<longrightarrow> p \<notin> set (get_need_reset tbl time_expired)) \<and>
   (\<forall>p \<in> set tbl. time_connected p = None \<longrightarrow> p \<notin> set (get_need_reset tbl time_expired))"
  by (auto simp: get_need_reset_def split: option.splits)

text \<open>
  Rotation trigger: with a threshold of one hour at time 10000, the port connected two
  hours ago is due, the port connected half an hour ago and the port without a
  credential are not.
\<close>

theorem get_need_reset_exact_witness:
  "port_row 7 5000 (Some 2) {2, 3} (Some (10000 - 7200))
     \<in> set (get_need_reset ex_ports (10000 - 3600)) \<and>
   port_row 8 5001 (Some 4) {4} (Some (10000 - 1800))
     \<notin> set (get_need_reset ex_ports (10000 - 3600)) \<and>
   port_row 9 5002 None {} None \<notin> set (get_need_reset ex_ports (10000 - 3600))"
proof -
  note th = get_need_reset_exact [of ex_ports "10000 - 3600"]
  let ?p7 = "port_row 7 5000 (Some 2) {2, 3} (Some (10000 - 7200))"
  let ?p8 = "port_row 8 5001 (Some 4) {4} (Some (10000 - 1800))"
  let ?p9 = "port_row 9 5002 None {} None"
  have mem: "?p7 \<in> set ex_ports" "?p8 \<in> set ex_ports" "?p9 \<in> set ex_ports"
    by (simp_all add: ex_ports_def)
  have "ssh ?p7 \<noteq> None \<and> (\<exists>t. time_connected ?p7 = Some t \<and> t < 10000 - 3600)"
    by (simp add: port_row_def)
  with mem(1) th have 1: "?p7 \<in> set (get_need_reset ex_ports (10000 - 3600))"
    by blast
  have "time_connected ?p8 = Some 8200 \<and> (10000 - 3600 :: int) \<le> 8200"
    by (simp add: port_row_def)
  with mem(2) th have 2: "?p8 \<notin> set (get_need_reset ex_ports (10000 - 3600))"
    by blast
  have "ssh ?p9 = None" by (simp add: port_row_def)
  with mem(3) th have 3: "?p9 \<notin> set (get_need_reset ex_ports (10000 - 3600))"
    by blast
  from 1 2 3 show ?thesis by simp
qed

text \<open>
  Claim C9. After \<open>reset_status\<close> a port has no credential assigned (\<open>need_ssh\<close> holds),
  an empty history, an empty external IP, no connection time, no \<open>last_checked\<close> and is
  not being checked; it keeps its primary key and its port number, and writing it back
  leaves the table with the same rows' keys. Resetting again changes nothing.
\<close>

theorem Port_reset_status_pristine:
  "need_ssh (Port_reset_status p) \<and>
   ssh (Port_reset_status p) = None \<and>
   used_ssh_list (Port_reset_status p) = {} \<and>
   external_ip (Port_reset_status p) = [] \<and>
   time_connected (Port_reset_status p) = None \<and>
   last_checked (Port_reset_status p) = None \<and>
   \<not> is_checking (Port_reset_status p) \<and>
   id_pk (Port_reset_status p) = id_pk p \<and>
   port_number (Port_reset_status p) = port_number p \<and>
   map id_pk (store_obj tbl (Port_reset_status p)) = map id_pk tbl \<and>
   Port_reset_status (Port_reset_status p) = Port_reset_status p"
  by (simp add: Port_reset_status_def reset_status_def need_ssh_def map_id_pk_store_obj)

text \<open>
  Port 7 has credential 2 assigned and the credentials 2 and 3 in its history; after the
  reset it needs a credential and its history is empty.
\<close>

theorem Port_reset_status_pristine_witness:
  "ssh (port_row 7 5000 (Some 2) {2, 3} (Some 2800)) = Some 2 \<and>
   need_ssh (Port_reset_status (port_row 7 5000 (Some 2) {2, 3} (Some 2800))) \<and>
   used_ssh_list (Port_reset_status (port_row 7 5000 (Some 2) {2, 3} (Some 2800))) = {}"
  using Port_reset_status_pristine [of "port_row 7 5000 (Some 2) {2, 3} (Some 2800)"]
  by (simp add: port_row_def)

subsection \<open>Completing a check\<close>

text \<open>The completion raises for every entity, table and list of updates.\<close>

lemma end_checking_always_raises: "end_checking setattr tbl obj kwargs now = Inl TypeError"
  by (simp add: end_checking_def db_session_enter_def)

lemma begin_checking_enters: "db_session_enter 0 = Inr ()"
  by (simp add: db_session_enter_def)

text \<open>
  Claim C6. \<open>end_checking\<close> is to apply the caller's updates, clear \<open>is_checking\<close> and
  stamp \<open>last_checked\<close>, and to return silently when the entity is gone. The code opens
  its block with \<open>db_session(retry=3)\<close>, which Pony refuses with \<open>TypeError\<close> on entry,
  before the entity is looked up: for credential 1, which is in the table, nothing is
  updated, and for the deleted credential 5 the call does not return silently.
\<close>

theorem end_checking_type_error:
  "end_checking SSH_setattr ex_inflight (ssh_row 1 True (Some 10)) [SSH_is_live False] 99
     = Inl TypeError \<and>
   end_checking SSH_setattr ex_inflight (ssh_row 5 True None) [SSH_is_live False] 99
     = Inl TypeError \<and>
   end_checking Port_setattr ex_ports (port_row 8 5001 (Some 4) {4} (Some (10000 - 1800)))
       [Port_external_ip ''198.51.100.7''] 99
     = Inl TypeError"
  by (simp add: end_checking_def db_session_enter_def)

section \<open>Properties of the tunnel manager\<close>

subsection \<open>Tearing a tunnel down\<close>

lemma find_split:
  "find P xs = Some x \<Longrightarrow> \<exists>ys zs. xs = ys @ x # zs \<and> P x \<and> (\<forall>y \<in> set ys. \<not> P y)"
proof (induction xs)
  case Nil
  then show ?case by simp
next
  case (Cons a xs)
  show ?case
  proof (cases "P a")
    case True
    with Cons.prems have "a = x" by simp
    with True have "a # xs = [] @ x # xs \<and> P x \<and> (\<forall>y \<in> set []. \<not> P y)" by simp
    then show ?thesis by blast
  next
    case False
    with Cons obtain ys zs where "xs = ys @ x # zs" "P x" "\<forall>y \<in> set ys. \<not> P y" by auto
    with False have "a # xs = (a # ys) @ x # zs \<and> P x \<and> (\<forall>y \<in> set (a # ys). \<not> P y)"
      by simp
    then show ?thesis by blast
  qed
qed

lemma find_None_iff': "find P xs = None \<longleftrightarrow> (\<forall>x \<in> set xs. \<not> P x)"
  by (induction xs) auto

lemma remove1_split: "x \<notin> set ys \<Longrightarrow> remove1 x (ys @ x # zs) = ys @ zs"
  by (induction ys) auto

text \<open>
  Claim C7, as the code has it. When the registry has an entry for the local port,
  \<open>kill_proxy_on_port\<close> removes the first such entry, closes its connection and
  leaves the rest of the registry and the cache as they are; when the registry has at
  most one entry per local port, no entry for the port is left. When there is no entry
  for the port, it fails with \<open>SSHError\<close>, the exception class that \<open>connect_ssh\<close> raises
  when a tunnel cannot be established, and changes nothing.
\<close>

theorem kill_proxy_on_port_effect:
  "((\<forall>x \<in> set (proxies st). ProxyInfo.port x \<noteq> p) \<longrightarrow>
      kill_proxy_on_port p st = (Inl (SSHError (''No proxy on port '' @ str_int p @ '' found.'')), st)) \<and>
   ((\<exists>x \<in> set (proxies st). ProxyInfo.port x = p) \<longrightarrow>
      (\<exists>ys proxy zs.
         proxies st = ys @ proxy # zs \<and> ProxyInfo.port proxy = p \<and>
         (\<forall>y \<in> set ys. ProxyInfo.port y \<noteq> p) \<and>
         kill_proxy_on_port p st =
           (Inr (), st\<lparr>proxies := ys @ zs, closed := closed st @ [connection proxy]\<rparr>))) \<and>
   (distinct (map ProxyInfo.port (proxies st)) \<longrightarrow>
      (\<forall>x \<in> set (proxies (snd (kill_proxy_on_port p st))). ProxyInfo.port x \<noteq> p))"
proof (cases "find (\<lambda>x. ProxyInfo.port x = p) (proxies st)")
  case None
  then have no: "\<forall>x \<in> set (proxies st). ProxyInfo.port x \<noteq> p"
    by (simp add: find_None_iff')
  with None show ?thesis by (auto simp: kill_proxy_on_port_def)
next
  case (Some proxy)
  from find_split [OF Some] obtain ys zs where
    split: "proxies st = ys @ proxy # zs" and pp: "ProxyInfo.port proxy = p"
    and before: "\<forall>y \<in> set ys. ProxyInfo.port y \<noteq> p"
    by blast
  from pp before have "proxy \<notin> set ys" by blast
  then have rm: "remove1 proxy (proxies st) = ys @ zs"
    using split by (simp add: remove1_split)
  have res: "kill_proxy_on_port p st =
               (Inr (), st\<lparr>proxies := ys @ zs, closed := closed st @ [connection proxy]\<rparr>)"
    using Some rm by (simp add: kill_proxy_on_port_def kill_ssh_connection_def)
  have ex: "\<exists>x \<in> set (proxies st). ProxyInfo.port x = p"
    using split pp by auto
  have "\<forall>x \<in> set (ys @ zs). ProxyInfo.port x \<noteq> p"
    if "distinct (map ProxyInfo.port (proxies st))"
    using that split pp before by (auto simp: image_iff)
  with res ex split pp before show ?thesis
    by auto
qed

lemma str_int_5000: "str_int 5000 = ''5000''"
  by code_simp

text \<open>
  Tearing down port 5000 on the empty registry fails; on the registry with tunnels on
  5001 and 5000 it removes the second entry and closes connection 2.
\<close>

theorem kill_proxy_on_port_effect_witness:
  "kill_proxy_on_port 5000 st0 = (Inl (SSHError ''No proxy on port 5000 found.''), st0) \<and>
   kill_proxy_on_port 5000 ex_st =
     (Inr (), \<lparr>proxies = [ex_entry 5001 1], ssh_port = Map.empty,
               closed = [\<lparr>conn_id = 2, port_remote = 22\<rparr>]\<rparr>)"
proof -
  have "\<forall>x \<in> set (proxies st0). ProxyInfo.port x \<noteq> 5000"
    by (simp add: st0_def)
  with kill_proxy_on_port_effect [of st0 5000]
  have 1: "kill_proxy_on_port 5000 st0 = (Inl (SSHError ''No proxy on port 5000 found.''), st0)"
    by (simp add: str_int_5000)
  have "\<exists>x \<in> set (proxies ex_st). ProxyInfo.port x = 5000"
    by (simp add: ex_st_def ex_entry_def)
  with kill_proxy_on_port_effect [of ex_st 5000] obtain ys proxy zs where
    split: "proxies ex_st = ys @ proxy # zs" and pp: "ProxyInfo.port proxy = 5000"
    and before: "\<forall>y \<in> set ys. ProxyInfo.port y \<noteq> 5000"
    and res: "kill_proxy_on_port 5000 ex_st =
       (Inr (), ex_st\<lparr>proxies := ys @ zs, closed := closed ex_st @ [connection proxy]\<rparr>)"
    by blast
  have "ys = [ex_entry 5001 1] \<and> proxy = ex_entry 5000 2 \<and> zs = []"
    using split pp before
    by (auto simp: ex_st_def ex_entry_def Cons_eq_append_conv append_eq_Cons_conv)
  with res have 2: "kill_proxy_on_port 5000 ex_st =
     (Inr (), \<lparr>proxies = [ex_entry 5001 1], ssh_port = Map.empty,
               closed = [\<lparr>conn_id = 2, port_remote = 22\<rparr>]\<rparr>)"
    by (simp add: ex_st_def ex_entry_def)
  from 1 2 show ?thesis by simp
qed

lemma wrap_refused:
  "wrap_exc (Exc OSError ''ConnectionRefusedError'' ''Connect call failed'')
     = SSHError ''ConnectionRefusedError: Connect call failed.''"
  by (simp add: wrap_exc_def)

text \<open>
  The failure of a teardown on a port without a tunnel and the failure of an
  establishment are exceptions of one class.
\<close>

theorem kill_proxy_on_port_counterexample:
  "fst (kill_proxy_on_port 5000 st0) = Inl (SSHError ''No proxy on port 5000 found.'') \<and>
   fst (connect_ssh ex_net_refused st0 ''10.0.0.5'' ''a'' ''b'' (Some 5000))
     = Inl (SSHError ''ConnectionRefusedError: Connect call failed.'') \<and>
   is_SSHError (SSHError ''No proxy on port 5000 found.'') \<and>
   is_SSHError (SSHError ''ConnectionRefusedError: Connect call failed.'')"
  by (simp add: kill_proxy_on_port_def connect_ssh_def Let_def st0_def str_int_5000
      ex_net_refused_def ex_net_def wrap_refused local_port_def)

subsection \<open>Establishing a tunnel\<close>

lemma connect_ssh_connect_fails:
  assumes "get_first_success nw h u pw
             (candidate_ports nw (snd (kill_proxy_on_port (local_port nw port_arg) st)) h u pw) = Inl e"
  shows "connect_ssh nw st h u pw port_arg =
           (Inl (wrap_exc e), snd (kill_proxy_on_port (local_port nw port_arg) st))"
  using assms by (simp add: connect_ssh_def Let_def)

lemma connect_ssh_forward_fails:
  assumes "get_first_success nw h u pw
             (candidate_ports nw (snd (kill_proxy_on_port (local_port nw port_arg) st)) h u pw) = Inr conn"
    and "forward_socks nw conn (local_port nw port_arg) = Some e"
  shows "connect_ssh nw st h u pw port_arg =
           (Inl (wrap_exc e),
            (snd (kill_proxy_on_port (local_port nw port_arg) st))
              \<lparr>ssh_port := (ssh_port (snd (kill_proxy_on_port (local_port nw port_arg) st)))
                   (cache_key h u pw \<mapsto> [port_remote conn])\<rparr>)"
  using assms by (simp add: connect_ssh_def Let_def)

lemma connect_ssh_check_raises:
  assumes "get_first_success nw h u pw
             (candidate_ports nw (snd (kill_proxy_on_port (local_port nw port_arg) st)) h u pw) = Inr conn"
    and "forward_socks nw conn (local_port nw port_arg) = None"
    and "get_proxy_ip nw (address \<lparr>port = local_port nw port_arg, connection = conn,
                                   host = ''localhost'', proxy_type = ''socks5''\<rparr>) = Inl e"
  shows "connect_ssh nw st h u pw port_arg =
           (Inl (wrap_exc e),
            (snd (kill_proxy_on_port (local_port nw port_arg) st))
              \<lparr>ssh_port := (ssh_port (snd (kill_proxy_on_port (local_port nw port_arg) st)))
                   (cache_key h u pw \<mapsto> [port_remote conn])\<rparr>)"
  using assms by (simp add: connect_ssh_def Let_def)

lemma connect_ssh_check_empty:
  assumes "get_first_success nw h u pw
             (candidate_ports nw (snd (kill_proxy_on_port (local_port nw port_arg) st)) h u pw) = Inr conn"
    and "forward_socks nw conn (local_port nw port_arg) = None"
    and "get_proxy_ip nw (address \<lparr>port = local_port nw port_arg, connection = conn,
                                   host = ''localhost'', proxy_type = ''socks5''\<rparr>) = Inr []"
  shows "connect_ssh nw st h u pw port_arg =
           (Inl (SSHError ''Cannot connect to forwarded proxy.''),
            (snd (kill_proxy_on_port (local_port nw port_arg) st))
              \<lparr>ssh_port := (ssh_port (snd (kill_proxy_on_port (local_port nw port_arg) st)))
                   (cache_key h u pw \<mapsto> [port_remote conn]),
               closed := closed (snd (kill_proxy_on_port (local_port nw port_arg) st)) @ [conn]\<rparr>)"
  using assms by (simp add: connect_ssh_def Let_def kill_ssh_connection_def)

lemma connect_ssh_succeeds:
  assumes "get_first_success nw h u pw
             (candidate_ports nw (snd (kill_proxy_on_port (local_port nw port_arg) st)) h u pw) = Inr conn"
    and "forward_socks nw conn (local_port nw port_arg) = None"
    and "get_proxy_ip nw (address \<lparr>port = local_port nw port_arg, connection = conn,
                                   host = ''localhost'', proxy_type = ''socks5''\<rparr>) = Inr a"
    and "a \<noteq> []"
  shows "connect_ssh nw st h u pw port_arg =
           (Inr \<lparr>port = local_port nw port_arg, connection = conn,
                 host = ''localhost'', proxy_type = ''socks5''\<rparr>,
            (snd (kill_proxy_on_port (local_port nw port_arg) st))
              \<lparr>ssh_port := (ssh_port (snd (kill_proxy_on_port (local_port nw port_arg) st)))
                   (cache_key h u pw \<mapsto> [port_remote conn]),
               proxies := proxies (snd (kill_proxy_on_port (local_port nw port_arg) st))
                   @ [\<lparr>port = local_port nw port_arg, connection = conn,
                        host = ''localhost'', proxy_type = ''socks5''\<rparr>]\<rparr>)"
  using assms by (simp add: connect_ssh_def Let_def)

lemma proxies_after_kill_subset:
  "set (proxies (snd (kill_proxy_on_port p st))) \<subseteq> set (proxies st)"
proof (cases "find (\<lambda>proxy. ProxyInfo.port proxy = p) (proxies st)")
  case None
  then show ?thesis by (simp add: kill_proxy_on_port_def)
next
  case (Some proxy)
  then have "proxies (snd (kill_proxy_on_port p st)) = remove1 proxy (proxies st)"
    by (simp add: kill_proxy_on_port_def kill_ssh_connection_def)
  then show ?thesis by (simp add: set_remove1_subset)
qed

lemma connect_ssh_cases:
  fixes nw st h u pw port_arg
  defines "p \<equiv> local_port nw port_arg"
  defines "st1 \<equiv> snd (kill_proxy_on_port p st)"
  defines "info \<equiv> \<lambda>conn. \<lparr>port = p, connection = conn, host = ''localhost'', proxy_type = ''socks5''\<rparr>"
  obtains
    (connect_fails) e where
      "get_first_success nw h u pw (candidate_ports nw st1 h u pw) = Inl e"
      "connect_ssh nw st h u pw port_arg = (Inl (wrap_exc e), st1)"
  | (forward_fails) conn e where
      "get_first_success nw h u pw (candidate_ports nw st1 h u pw) = Inr conn"
      "forward_socks nw conn p = Some e"
      "connect_ssh nw st h u pw port_arg =
         (Inl (wrap_exc e), st1\<lparr>ssh_port := (ssh_port st1)(cache_key h u pw \<mapsto> [port_remote conn])\<rparr>)"
  | (check_raises) conn e where
      "get_first_success nw h u pw (candidate_ports nw st1 h u pw) = Inr conn"
      "forward_socks nw conn p = None"
      "get_proxy_ip nw (address (info conn)) = Inl e"
      "connect_ssh nw st h u pw port_arg =
         (Inl (wrap_exc e), st1\<lparr>ssh_port := (ssh_port st1)(cache_key h u pw \<mapsto> [port_remote conn])\<rparr>)"
  | (check_empty) conn where
      "get_first_success nw h u pw (candidate_ports nw st1 h u pw) = Inr conn"
      "forward_socks nw conn p = None"
      "get_proxy_ip nw (address (info conn)) = Inr []"
      "connect_ssh nw st h u pw port_arg =
         (Inl (SSHError ''Cannot connect to forwarded proxy.''),
          st1\<lparr>ssh_port := (ssh_port st1)(cache_key h u pw \<mapsto> [port_remote conn]),
              closed := closed st1 @ [conn]\<rparr>)"
  | (succeeds) conn a where
      "get_first_success nw h u pw (candidate_ports nw st1 h u pw) = Inr conn"
      "forward_socks nw conn p = None"
      "get_proxy_ip nw (address (info conn)) = Inr a" "a \<noteq> []"
      "connect_ssh nw st h u pw port_arg =
         (Inr (info conn),
          st1\<lparr>ssh_port := (ssh_port st1)(cache_key h u pw \<mapsto> [port_remote conn]),
              proxies := proxies st1 @ [info conn]\<rparr>)"
proof (cases "get_first_success nw h u pw (candidate_ports nw st1 h u pw)")
  case (Inl e)
  then show ?thesis
    using connect_ssh_connect_fails [of nw h u pw port_arg st e] connect_fails
    by (simp add: p_def st1_def)
next
  case (Inr conn)
  note c = Inr
  show ?thesis
  proof (cases "forward_socks nw conn p")
    case (Some e)
    then show ?thesis
      using c connect_ssh_forward_fails [of nw h u pw port_arg st conn e] forward_fails
      by (simp add: p_def st1_def)
  next
    case None
    note f = None
    show ?thesis
    proof (cases "get_proxy_ip nw (address (info conn))")
      case (Inl e)
      then show ?thesis
        using c f connect_ssh_check_raises [of nw h u pw port_arg st conn e] check_raises
        by (simp add: p_def st1_def info_def)
    next
      case (Inr a)
      show ?thesis
      proof (cases "a = []")
        case True
        then show ?thesis
          using c f Inr connect_ssh_check_empty [of nw h u pw port_arg st conn] check_empty
          by (simp add: p_def st1_def info_def)
      next
        case False
        then show ?thesis
          using c f Inr connect_ssh_succeeds [of nw h u pw port_arg st conn a] succeeds
          by (simp add: p_def st1_def info_def)
      qed
    qed
  qed
qed

text \<open>
  Claim C4, as the code has it. \<open>connect_ssh\<close> returns a \<open>ProxyInfo\<close> only when the
  connection, the SOCKS forward and the check of the external address through the proxy
  have all succeeded, and then it has appended that \<open>ProxyInfo\<close> to the registry; when
  all three succeed it does return. When the check yields no address, the connection is
  closed and the call fails with \<open>SSHError\<close> carrying the fixed message
  \<open>Cannot connect to forwarded proxy.\<close>, which wraps no exception. Whenever the call
  fails, the registry is the one the teardown of the local port has left, which has no
  entry the registry before the call did not have.
\<close>

theorem connect_ssh_outcome:
  "let p = local_port nw port_arg;
       st1 = snd (kill_proxy_on_port p st);
       r = connect_ssh nw st h u pw port_arg
   in (\<forall>info. fst r = Inr info \<longrightarrow>
         (\<exists>conn a.
            get_first_success nw h u pw (candidate_ports nw st1 h u pw) = Inr conn \<and>
            forward_socks nw conn p = None \<and>
            get_proxy_ip nw (address info) = Inr a \<and> a \<noteq> [] \<and>
            info = \<lparr>port = p, connection = conn, host = ''localhost'', proxy_type = ''socks5''\<rparr> \<and>
            proxies (snd r) = proxies st1 @ [info] \<and>
            closed (snd r) = closed st1)) \<and>
      (\<forall>conn a.
         get_first_success nw h u pw (candidate_ports nw st1 h u pw) = Inr conn \<and>
         forward_socks nw conn p = None \<and>
         get_proxy_ip nw (address \<lparr>port = p, connection = conn, host = ''localhost'',
                                   proxy_type = ''socks5''\<rparr>) = Inr a \<and> a \<noteq> []
         \<longrightarrow> fst r = Inr \<lparr>port = p, connection = conn, host = ''localhost'',
                           proxy_type = ''socks5''\<rparr>) \<and>
      (\<forall>conn.
         get_first_success nw h u pw (candidate_ports nw st1 h u pw) = Inr conn \<and>
         forward_socks nw conn p = None \<and>
         get_proxy_ip nw (address \<lparr>port = p, connection = conn, host = ''localhost'',
                                   proxy_type = ''socks5''\<rparr>) = Inr []
         \<longrightarrow> fst r = Inl (SSHError ''Cannot connect to forwarded proxy.'') \<and>
             closed (snd r) = closed st1 @ [conn] \<and>
             proxies (snd r) = proxies st1) \<and>
      (\<forall>e. fst r = Inl e \<longrightarrow> proxies (snd r) = proxies st1) \<and>
      set (proxies st1) \<subseteq> set (proxies st)"
proof -
  have sub: "set (proxies (snd (kill_proxy_on_port (local_port nw port_arg) st)))
               \<subseteq> set (proxies st)"
    by (rule proxies_after_kill_subset)
  show ?thesis
  proof (cases rule: connect_ssh_cases [of nw h u pw port_arg st])
    case (connect_fails e)
    then show ?thesis using sub by (simp add: Let_def)
  next
    case (forward_fails conn e)
    then show ?thesis using sub by (simp add: Let_def)
  next
    case (check_raises conn e)
    then show ?thesis using sub by (simp add: Let_def)
  next
    case (check_empty conn)
    then show ?thesis using sub by (simp add: Let_def)
  next
    case (succeeds conn a)
    then show ?thesis using sub by (simp add: Let_def)
  qed
qed

lemma local_port_5000: "local_port nw (Some 5000) = 5000"
  by (simp add: local_port_def)

lemma kill_5000_ex_st:
  "snd (kill_proxy_on_port 5000 ex_st) =
     \<lparr>proxies = [ex_entry 5001 1], ssh_port = Map.empty,
      closed = [\<lparr>conn_id = 2, port_remote = 22\<rparr>]\<rparr>"
  by (simp add: kill_proxy_on_port_def kill_ssh_connection_def ex_st_def ex_entry_def)

lemma kill_5000_st0: "snd (kill_proxy_on_port 5000 st0) = st0"
  by (simp add: kill_proxy_on_port_def st0_def)

lemma parse_ports_ex: "parse_ports ''2222, 22'' = [2222, 22]"
  by (simp add: parse_ports_def is_digit_def int_of_digits_def)

lemma candidate_ports_no_cache:
  "ssh_port st (cache_key h u pw) = None \<Longrightarrow> ssh_ports nw = ''2222, 22''
     \<Longrightarrow> candidate_ports nw st h u pw = [2222, 22]"
  by (simp add: candidate_ports_def py_or_def parse_ports_ex)

lemma address_5000:
  "address \<lparr>port = 5000, connection = c, host = ''localhost'', proxy_type = ''socks5''\<rparr>
     = ''socks5://localhost:5000''"
  by (simp add: address_def str_int_5000)

text \<open>
  On the registry with tunnels on 5001 and 5000, establishing on port 5000 replaces the
  entry of port 5000 when the check sees an address; when it sees none, the call fails,
  the new connection 7 is closed after the old connection 2, and only the entry of port
  5001 is left.
\<close>

theorem connect_ssh_outcome_witness:
  "fst (connect_ssh ex_net ex_st ''10.0.0.5'' ''a'' ''b'' (Some 5000)) =
     Inr \<lparr>port = 5000, connection = \<lparr>conn_id = 7, port_remote = 2222\<rparr>,
          host = ''localhost'', proxy_type = ''socks5''\<rparr> \<and>
   proxies (snd (connect_ssh ex_net ex_st ''10.0.0.5'' ''a'' ''b'' (Some 5000))) =
     [ex_entry 5001 1,
      \<lparr>port = 5000, connection = \<lparr>conn_id = 7, port_remote = 2222\<rparr>,
       host = ''localhost'', proxy_type = ''socks5''\<rparr>] \<and>
   fst (connect_ssh ex_net_unverified ex_st ''10.0.0.5'' ''a'' ''b'' (Some 5000)) =
     Inl (SSHError ''Cannot connect to forwarded proxy.'') \<and>
   proxies (snd (connect_ssh ex_net_unverified ex_st ''10.0.0.5'' ''a'' ''b'' (Some 5000))) =
     [ex_entry 5001 1] \<and>
   closed (snd (connect_ssh ex_net_unverified ex_st ''10.0.0.5'' ''a'' ''b'' (Some 5000))) =
     [\<lparr>conn_id = 2, port_remote = 22\<rparr>, \<lparr>conn_id = 7, port_remote = 2222\<rparr>]"
proof -
  let ?c = "\<lparr>conn_id = 7, port_remote = 2222\<rparr>"
  let ?st1 = "\<lparr>proxies = [ex_entry 5001 1], ssh_port = Map.empty,
               closed = [\<lparr>conn_id = 2, port_remote = 22\<rparr>]\<rparr>"
  have cand: "candidate_ports ex_net ?st1 ''10.0.0.5'' ''a'' ''b'' = [2222, 22]"
    "candidate_ports ex_net_unverified ?st1 ''10.0.0.5'' ''a'' ''b'' = [2222, 22]"
    by (simp_all add: candidate_ports_no_cache ex_net_def ex_net_unverified_def)
  have net: "get_first_success ex_net ''10.0.0.5'' ''a'' ''b'' [2222, 22] = Inr ?c"
    "forward_socks ex_net ?c 5000 = None"
    "get_proxy_ip ex_net ''socks5://localhost:5000'' = Inr ''198.51.100.7''"
    by (simp_all add: ex_net_def)
  have net': "get_first_success ex_net_unverified ''10.0.0.5'' ''a'' ''b'' [2222, 22] = Inr ?c"
    "forward_socks ex_net_unverified ?c 5000 = None"
    "get_proxy_ip ex_net_unverified ''socks5://localhost:5000'' = Inr []"
    by (simp_all add: ex_net_def ex_net_unverified_def)
  note ok = connect_ssh_outcome
    [where nw = ex_net and st = ex_st and h = "''10.0.0.5''" and u = "''a''" and pw = "''b''"
       and port_arg = "Some 5000", unfolded Let_def local_port_5000 kill_5000_ex_st cand
       address_5000]
  note bad = connect_ssh_outcome
    [where nw = ex_net_unverified and st = ex_st and h = "''10.0.0.5''" and u = "''a''"
       and pw = "''b''" and port_arg = "Some 5000", unfolded Let_def local_port_5000
       kill_5000_ex_st cand address_5000]
  from ok net have 1: "fst (connect_ssh ex_net ex_st ''10.0.0.5'' ''a'' ''b'' (Some 5000)) =
     Inr \<lparr>port = 5000, connection = ?c, host = ''localhost'', proxy_type = ''socks5''\<rparr>"
    by blast
  with ok have 2: "proxies (snd (connect_ssh ex_net ex_st ''10.0.0.5'' ''a'' ''b'' (Some 5000))) =
     [ex_entry 5001 1,
      \<lparr>port = 5000, connection = ?c, host = ''localhost'', proxy_type = ''socks5''\<rparr>]"
    by auto
  from bad net' have 3:
    "fst (connect_ssh ex_net_unverified ex_st ''10.0.0.5'' ''a'' ''b'' (Some 5000)) =
       Inl (SSHError ''Cannot connect to forwarded proxy.'') \<and>
     closed (snd (connect_ssh ex_net_unverified ex_st ''10.0.0.5'' ''a'' ''b'' (Some 5000))) =
       [\<lparr>conn_id = 2, port_remote = 22\<rparr>] @ [?c] \<and>
     proxies (snd (connect_ssh ex_net_unverified ex_st ''10.0.0.5'' ''a'' ''b'' (Some 5000))) =
       [ex_entry 5001 1]"
    by (simp del: append.simps)
  from 1 2 3 show ?thesis by simp
qed

text \<open>
  The claim as worded has the failure of the check wrap its underlying cause. Here no
  call to the network raises anything, the check returns an empty address, and the
  error is the fixed message.
\<close>

theorem connect_ssh_counterexample:
  "get_first_success ex_net_unverified ''10.0.0.5'' ''a'' ''b'' [2222, 22]
     = Inr \<lparr>conn_id = 7, port_remote = 2222\<rparr> \<and>
   forward_socks ex_net_unverified \<lparr>conn_id = 7, port_remote = 2222\<rparr> 5000 = None \<and>
   get_proxy_ip ex_net_unverified ''socks5://localhost:5000'' = Inr [] \<and>
   connect_ssh ex_net_unverified st0 ''10.0.0.5'' ''a'' ''b'' (Some 5000) =
     (Inl (SSHError ''Cannot connect to forwarded proxy.''),
      \<lparr>proxies = [], ssh_port = [''10.0.0.5|a|b'' \<mapsto> [2222]],
       closed = [\<lparr>conn_id = 7, port_remote = 2222\<rparr>]\<rparr>)"
proof -
  let ?c = "\<lparr>conn_id = 7, port_remote = 2222\<rparr>"
  have cand: "candidate_ports ex_net_unverified st0 ''10.0.0.5'' ''a'' ''b'' = [2222, 22]"
    by (simp add: candidate_ports_no_cache st0_def ex_net_def ex_net_unverified_def)
  have net: "get_first_success ex_net_unverified ''10.0.0.5'' ''a'' ''b'' [2222, 22] = Inr ?c"
    "forward_socks ex_net_unverified ?c 5000 = None"
    "get_proxy_ip ex_net_unverified ''socks5://localhost:5000'' = Inr []"
    by (simp_all add: ex_net_def ex_net_unverified_def)
  have "connect_ssh ex_net_unverified st0 ''10.0.0.5'' ''a'' ''b'' (Some 5000) =
          (Inl (SSHError ''Cannot connect to forwarded proxy.''),
           st0\<lparr>ssh_port := (ssh_port st0)(cache_key ''10.0.0.5'' ''a'' ''b'' \<mapsto> [port_remote ?c]),
               closed := closed st0 @ [?c]\<rparr>)"
    using connect_ssh_check_empty
      [where nw = ex_net_unverified and st = st0 and h = "''10.0.0.5''" and u = "''a''"
         and pw = "''b''" and port_arg = "Some 5000" and conn = ?c]
      net
    by (simp add: local_port_5000 kill_5000_st0 cand address_5000)
  then show ?thesis using net by (simp add: st0_def cache_key_def)
qed

text \<open>The fixed message is not the wrapping of any exception.\<close>

lemma verification_error_not_wrapped:
  "wrap_exc e \<noteq> SSHError ''Cannot connect to forwarded proxy.''"
proof
  assume "wrap_exc e = SSHError ''Cannot connect to forwarded proxy.''"
  then have eq: "type_name e @ '': '' @ message e @ ''.'' = ''Cannot connect to forwarded proxy.''"
    by (simp add: wrap_exc_def split: if_splits)
  have mem: "CHR '':'' \<in> set (type_name e @ '': '' @ message e @ ''.'')"
    by simp
  have "CHR '':'' \<in> set ''Cannot connect to forwarded proxy.''"
    using mem unfolding eq .
  then show False by simp
qed

subsection \<open>The cache of remote ports\<close>

lemma ssh_port_after_kill: "ssh_port (snd (kill_proxy_on_port p st)) = ssh_port st"
  by (simp add: kill_proxy_on_port_def kill_ssh_connection_def split: option.splits)

lemma candidate_ports_unfold:
  "candidate_ports nw st h u pw =
     (case ssh_port st (cache_key h u pw) of
        Some (q # qs) \<Rightarrow> q # qs
      | _ \<Rightarrow> (case parse_ports (ssh_ports nw) of q # qs \<Rightarrow> q # qs | [] \<Rightarrow> [22]))"
  by (simp add: candidate_ports_def py_or_def split: option.splits list.splits)

lemma ssh_port_after_connect:
  "ssh_port (snd (connect_ssh nw st h u pw port_arg)) =
     (case get_first_success nw h u pw
             (candidate_ports nw (snd (kill_proxy_on_port (local_port nw port_arg) st)) h u pw) of
        Inl e \<Rightarrow> ssh_port st
      | Inr conn \<Rightarrow> (ssh_port st)(cache_key h u pw \<mapsto> [port_remote conn]))"
  by (cases rule: connect_ssh_cases [of nw h u pw port_arg st])
    (simp_all add: ssh_port_after_kill)

text \<open>
  What the cache does. The candidate remote ports of \<open>connect_ssh\<close> are the list
  cached under the string \<open>host|username|password\<close> when there is one that is not
  empty, otherwise the ports of the configuration, otherwise \<open>[22]\<close>. When the
  connection succeeds, the remote port of the connection is cached under that string,
  the entries under other strings stay, and a later \<open>connect_ssh\<close> for the same host,
  user name and password has that port as its only candidate, whatever the network,
  the configuration and the local port are then.
\<close>

lemma candidate_ports_cache:
  "candidate_ports nw st h u pw =
     (case ssh_port st (cache_key h u pw) of
        Some (q # qs) \<Rightarrow> q # qs
      | _ \<Rightarrow> (case parse_ports (ssh_ports nw) of q # qs \<Rightarrow> q # qs | [] \<Rightarrow> [22])) \<and>
   (\<forall>conn.
      get_first_success nw h u pw
        (candidate_ports nw (snd (kill_proxy_on_port (local_port nw port_arg) st)) h u pw) = Inr conn
      \<longrightarrow> ssh_port (snd (connect_ssh nw st h u pw port_arg)) (cache_key h u pw)
            = Some [port_remote conn] \<and>
          (\<forall>nw' p'. candidate_ports nw'
                      (snd (kill_proxy_on_port p' (snd (connect_ssh nw st h u pw port_arg)))) h u pw
                    = [port_remote conn])) \<and>
   (\<forall>k. k \<noteq> cache_key h u pw \<longrightarrow>
      ssh_port (snd (connect_ssh nw st h u pw port_arg)) k = ssh_port st k)"
proof -
  have 1: "candidate_ports nw st h u pw =
     (case ssh_port st (cache_key h u pw) of
        Some (q # qs) \<Rightarrow> q # qs
      | _ \<Rightarrow> (case parse_ports (ssh_ports nw) of q # qs \<Rightarrow> q # qs | [] \<Rightarrow> [22]))"
    by (rule candidate_ports_unfold)
  have 2: "ssh_port (snd (connect_ssh nw st h u pw port_arg)) (cache_key h u pw)
            = Some [port_remote conn] \<and>
          (\<forall>nw' p'. candidate_ports nw'
                      (snd (kill_proxy_on_port p' (snd (connect_ssh nw st h u pw port_arg)))) h u pw
                    = [port_remote conn])"
    if "get_first_success nw h u pw
        (candidate_ports nw (snd (kill_proxy_on_port (local_port nw port_arg) st)) h u pw) = Inr conn"
    for conn
    using that
    by (simp add: ssh_port_after_connect candidate_ports_def py_or_def ssh_port_after_kill)
  have 3: "ssh_port (snd (connect_ssh nw st h u pw port_arg)) k = ssh_port st k"
    if "k \<noteq> cache_key h u pw" for k
    using that by (simp add: ssh_port_after_connect split: sum.splits)
  from 1 2 3 show ?thesis by blast
qed

text \<open>
  Without a cache entry and with the configured ports \<open>2222, 22\<close> the candidates are
  both ports, and \<open>[22]\<close> when the configuration names no port; after the connection
  on 2222 the only candidate for the same credential is 2222.
\<close>

lemma candidate_ports_cache_example:
  "candidate_ports ex_net st0 ''10.0.0.5'' ''a'' ''b'' = [2222, 22] \<and>
   candidate_ports (ex_net\<lparr>ssh_ports := ''none''\<rparr>) st0 ''10.0.0.5'' ''a'' ''b'' = [22] \<and>
   ssh_port (snd (connect_ssh ex_net st0 ''10.0.0.5'' ''a'' ''b'' (Some 5000))) ''10.0.0.5|a|b''
     = Some [2222] \<and>
   candidate_ports ex_net
     (snd (kill_proxy_on_port 5000 (snd (connect_ssh ex_net st0 ''10.0.0.5'' ''a'' ''b'' (Some 5000)))))
     ''10.0.0.5'' ''a'' ''b'' = [2222]"
proof -
  let ?c = "\<lparr>conn_id = 7, port_remote = 2222\<rparr>"
  note th = candidate_ports_cache
    [where nw = ex_net and st = st0 and h = "''10.0.0.5''" and u = "''a''" and pw = "''b''"
       and port_arg = "Some 5000"]
  note th' = candidate_ports_cache
    [where nw = "ex_net\<lparr>ssh_ports := ''none''\<rparr>" and st = st0 and h = "''10.0.0.5''"
       and u = "''a''" and pw = "''b''" and port_arg = "Some 5000"]
  have pp: "parse_ports (ssh_ports ex_net) = [2222, 22]"
    "parse_ports (ssh_ports (ex_net\<lparr>ssh_ports := ''none''\<rparr>)) = []"
    by (simp_all add: ex_net_def parse_ports_def is_digit_def int_of_digits_def)
  have nc: "ssh_port st0 (cache_key ''10.0.0.5'' ''a'' ''b'') = None"
    by (simp add: st0_def)
  from th nc pp have 1: "candidate_ports ex_net st0 ''10.0.0.5'' ''a'' ''b'' = [2222, 22]"
    by simp
  from th' nc pp have 2:
    "candidate_ports (ex_net\<lparr>ssh_ports := ''none''\<rparr>) st0 ''10.0.0.5'' ''a'' ''b'' = [22]"
    by simp
  have "get_first_success ex_net ''10.0.0.5'' ''a'' ''b''
          (candidate_ports ex_net (snd (kill_proxy_on_port (local_port ex_net (Some 5000)) st0))
             ''10.0.0.5'' ''a'' ''b'') = Inr ?c"
    using 1 by (simp add: local_port_5000 kill_5000_st0) (simp add: ex_net_def)
  with th have 3:
    "ssh_port (snd (connect_ssh ex_net st0 ''10.0.0.5'' ''a'' ''b'' (Some 5000)))
        (cache_key ''10.0.0.5'' ''a'' ''b'') = Some [port_remote ?c] \<and>
     candidate_ports ex_net
       (snd (kill_proxy_on_port 5000 (snd (connect_ssh ex_net st0 ''10.0.0.5'' ''a'' ''b'' (Some 5000)))))
       ''10.0.0.5'' ''a'' ''b'' = [port_remote ?c]"
    by blast
  from 1 2 3 show ?thesis by (simp add: cache_key_def)
qed

text \<open>
  Claim C5. The cache is to hold the winning port of exactly one triple of host, user
  name and password, and a triple without a cached port is to get the configured
  list. The key \<open>host|username|password\<close> does not tell triples apart whose fields
  contain the separator: the user \<open>a\<close> with password \<open>b|c\<close> never connected and has no
  entry of its own, yet after the user \<open>a|b\<close> with password \<open>c\<close> connected to the same
  host, its only candidate is the port cached for that other credential, not the
  configured list \<open>[2222, 22]\<close>.
\<close>

theorem candidate_ports_key_collision:
  "ssh_port st0 (cache_key ''10.0.0.5'' ''a'' ''b|c'') = None \<and>
   parse_ports (ssh_ports ex_net) = [2222, 22] \<and>
   (''a|b'', ''c'') \<noteq> (''a'', ''b|c'') \<and>
   candidate_ports ex_net
     (snd (connect_ssh ex_net st0 ''10.0.0.5'' ''a|b'' ''c'' (Some 5000)))
     ''10.0.0.5'' ''a'' ''b|c'' = [2222]"
proof -
  let ?c = "\<lparr>conn_id = 7, port_remote = 2222\<rparr>"
  have pp: "parse_ports (ssh_ports ex_net) = [2222, 22]"
    by (simp add: ex_net_def parse_ports_def is_digit_def int_of_digits_def)
  have "candidate_ports ex_net st0 ''10.0.0.5'' ''a|b'' ''c'' = [2222, 22]"
    by (simp add: candidate_ports_unfold pp st0_def)
  then have "get_first_success ex_net ''10.0.0.5'' ''a|b'' ''c''
          (candidate_ports ex_net (snd (kill_proxy_on_port (local_port ex_net (Some 5000)) st0))
             ''10.0.0.5'' ''a|b'' ''c'') = Inr ?c"
    by (simp add: local_port_5000 kill_5000_st0) (simp add: ex_net_def)
  then have "ssh_port (snd (connect_ssh ex_net st0 ''10.0.0.5'' ''a|b'' ''c'' (Some 5000)))
               = (ssh_port st0)(cache_key ''10.0.0.5'' ''a|b'' ''c'' \<mapsto> [2222])"
    by (simp add: ssh_port_after_connect)
  then have "candidate_ports ex_net
     (snd (connect_ssh ex_net st0 ''10.0.0.5'' ''a|b'' ''c'' (Some 5000)))
     ''10.0.0.5'' ''a'' ''b|c'' = [2222]"
    by (simp add: candidate_ports_unfold cache_key_def)
  with pp show ?thesis by (simp add: st0_def)
qed

subsection \<open>Verifying a credential\<close>

lemma local_port_None: "local_port nw None = get_free_port nw"
  by (simp add: local_port_def)

text \<open>
  Claim C10. \<open>verify_ssh\<close> leaves the registry as the \<open>connect_ssh\<close> it calls has left
  it: it removes no entry. Whenever it returns \<open>True\<close>, the \<open>ProxyInfo\<close> that
  \<open>connect_ssh\<close> returned and appended is still the last entry of the registry, and its
  connection has been closed. It returns \<open>True\<close> whenever \<open>connect_ssh\<close> returns a
  \<open>ProxyInfo\<close>.
\<close>

theorem verify_ssh_registry:
  "proxies (snd (verify_ssh nw st h u pw)) = proxies (snd (connect_ssh nw st h u pw None)) \<and>
   (fst (verify_ssh nw st h u pw) = Inr True \<longrightarrow>
      (\<exists>info. fst (connect_ssh nw st h u pw None) = Inr info \<and>
              proxies (snd (verify_ssh nw st h u pw)) =
                proxies (snd (kill_proxy_on_port (get_free_port nw) st)) @ [info] \<and>
              info \<in> set (proxies (snd (verify_ssh nw st h u pw))) \<and>
              connection info \<in> set (closed (snd (verify_ssh nw st h u pw))))) \<and>
   (\<forall>info. fst (connect_ssh nw st h u pw None) = Inr info \<longrightarrow>
      fst (verify_ssh nw st h u pw) = Inr True)"
proof (cases rule: connect_ssh_cases [of nw h u pw None st])
  case (connect_fails e)
  then show ?thesis
    by (cases "wrap_exc e"; cases e) (simp_all add: verify_ssh_def)
next
  case (forward_fails conn e)
  then show ?thesis
    by (cases "wrap_exc e"; cases e) (simp_all add: verify_ssh_def)
next
  case (check_raises conn e)
  then show ?thesis
    by (cases "wrap_exc e"; cases e) (simp_all add: verify_ssh_def)
next
  case (check_empty conn)
  then show ?thesis
    by (simp add: verify_ssh_def)
next
  case (succeeds conn a)
  then show ?thesis
    by (simp add: verify_ssh_def kill_ssh_connection_def local_port_None)
qed

text \<open>
  Verifying a credential on the empty registry: the answer is \<open>True\<close>, and the registry
  keeps the entry on the free port 40000 whose connection 7 is closed.
\<close>

theorem verify_ssh_registry_witness:
  "fst (verify_ssh ex_net st0 ''10.0.0.5'' ''a'' ''b'') = Inr True \<and>
   proxies (snd (verify_ssh ex_net st0 ''10.0.0.5'' ''a'' ''b'')) =
     [\<lparr>port = 40000, connection = \<lparr>conn_id = 7, port_remote = 2222\<rparr>,
       host = ''localhost'', proxy_type = ''socks5''\<rparr>] \<and>
   \<lparr>conn_id = 7, port_remote = 2222\<rparr> \<in> set (closed (snd (verify_ssh ex_net st0 ''10.0.0.5'' ''a'' ''b'')))"
proof -
  let ?c = "\<lparr>conn_id = 7, port_remote = 2222\<rparr>"
  let ?info = "\<lparr>port = 40000, connection = ?c, host = ''localhost'', proxy_type = ''socks5''\<rparr>"
  note th = verify_ssh_registry
    [where nw = ex_net and st = st0 and h = "''10.0.0.5''" and u = "''a''" and pw = "''b''"]
  have fp: "get_free_port ex_net = 40000" by (simp add: ex_net_def)
  have k: "snd (kill_proxy_on_port 40000 st0) = st0"
    by (simp add: kill_proxy_on_port_def st0_def)
  have cand: "candidate_ports ex_net st0 ''10.0.0.5'' ''a'' ''b'' = [2222, 22]"
    by (simp add: candidate_ports_no_cache st0_def ex_net_def)
  have net: "get_first_success ex_net ''10.0.0.5'' ''a'' ''b'' [2222, 22] = Inr ?c"
    "forward_socks ex_net ?c 40000 = None"
    "get_proxy_ip ex_net (address ?info) = Inr ''198.51.100.7''"
    "''198.51.100.7'' \<noteq> []"
    by (simp_all add: ex_net_def)
  have c: "fst (connect_ssh ex_net st0 ''10.0.0.5'' ''a'' ''b'' None) = Inr ?info"
    using connect_ssh_succeeds
      [where nw = ex_net and st = st0 and h = "''10.0.0.5''" and u = "''a''" and pw = "''b''"
         and port_arg = None and conn = ?c and a = "''198.51.100.7''"]
      net
    by (simp add: local_port_None fp k cand)
  with th have 1: "fst (verify_ssh ex_net st0 ''10.0.0.5'' ''a'' ''b'') = Inr True"
    by blast
  with th c have 2: "proxies (snd (verify_ssh ex_net st0 ''10.0.0.5'' ''a'' ''b'')) =
       proxies (snd (kill_proxy_on_port (get_free_port ex_net) st0)) @ [?info] \<and>
     connection ?info \<in> set (closed (snd (verify_ssh ex_net st0 ''10.0.0.5'' ''a'' ''b'')))"
    by auto
  from 1 2 show ?thesis by (simp add: fp k) (simp add: st0_def)
qed

subsection \<open>One entry per local port\<close>

text \<open>
  A registry with at most one entry per local port stays so under every operation: a
  tunnel is established on a port only after the entry of that port is removed. The
  registry starts empty, so the entry that a teardown removes is the only one of its
  port.
\<close>

lemma kill_proxy_on_port_clears:
  assumes "distinct (map ProxyInfo.port (proxies st))"
  shows "distinct (map ProxyInfo.port (proxies (snd (kill_proxy_on_port p st)))) \<and>
         p \<notin> ProxyInfo.port ` set (proxies (snd (kill_proxy_on_port p st)))"
proof (cases "find (\<lambda>x. ProxyInfo.port x = p) (proxies st)")
  case None
  then have "\<forall>x \<in> set (proxies st). ProxyInfo.port x \<noteq> p"
    by (simp add: find_None_iff')
  with None assms show ?thesis by (auto simp: kill_proxy_on_port_def)
next
  case (Some proxy)
  from find_split [OF Some] obtain ys zs where
    split: "proxies st = ys @ proxy # zs" and pp: "ProxyInfo.port proxy = p"
    and before: "\<forall>y \<in> set ys. ProxyInfo.port y \<noteq> p"
    by blast
  from pp before have "proxy \<notin> set ys" by blast
  then have "remove1 proxy (proxies st) = ys @ zs"
    using split by (simp add: remove1_split)
  with Some have "proxies (snd (kill_proxy_on_port p st)) = ys @ zs"
    by (simp add: kill_proxy_on_port_def kill_ssh_connection_def)
  with assms split pp show ?thesis by (auto simp: image_iff)
qed

lemma connect_ssh_one_entry_per_port:
  assumes "distinct (map ProxyInfo.port (proxies st))"
  shows "distinct (map ProxyInfo.port (proxies (snd (connect_ssh nw st h u pw port_arg))))"
  using kill_proxy_on_port_clears [OF assms, of "local_port nw port_arg"]
  by (cases rule: connect_ssh_cases [of nw h u pw port_arg st]) simp_all

lemma verify_ssh_one_entry_per_port:
  assumes "distinct (map ProxyInfo.port (proxies st))"
  shows "distinct (map ProxyInfo.port (proxies (snd (verify_ssh nw st h u pw))))"
proof -
  have "proxies (snd (verify_ssh nw st h u pw)) = proxies (snd (connect_ssh nw st h u pw None))"
    by (cases "connect_ssh nw st h u pw None" rule: prod.exhaust)
      (auto simp: verify_ssh_def kill_ssh_connection_def split: sum.splits error.splits)
  then show ?thesis using connect_ssh_one_entry_per_port [OF assms] by simp
qed

end
